theory Spec2Isabelle
  imports Main "HOL-Library.Word"
begin

unbundle bit_operations_syntax

section \<open>The init operation (init\_dir.go)\<close>

text \<open>
  \<^verbatim>\<open>initDir\<close> reads five fields of the argument container. The container itself is
  declared outside \<^verbatim>\<open>init_dir.go\<close>; only the fields the function reads are modelled.
\<close>

record argContainer =
  cipherdir :: string
  config :: string
  extpass :: string
  plaintextnames :: bool
  reverse :: bool
  scryptn :: int

text \<open>
  What \<^verbatim>\<open>initDir\<close> does to the outside world, in program order: the calls it makes into
  other packages and the lines it logs. A Go \<^verbatim>\<open>error\<close> is carried as its message.
\<close>

datatype event =
    Call_checkDirEmpty string
  | Call_Twice string
  | Call_CreateConfFile string string bool int string
  | Call_WriteDirIV string
  | Fatal string
  | Info string

text \<open>
  The functions and constants \<^verbatim>\<open>initDir\<close> uses but \<^verbatim>\<open>init_dir.go\<close> does not define are
  parameters. The type \<open>'w\<close> is the state of the host (its file system, its entropy).
  \<^verbatim>\<open>checkDirEmpty\<close> only inspects the directory, so it returns its verdict and no new state;
  \<^verbatim>\<open>CreateConfFile\<close> and \<^verbatim>\<open>WriteDirIV\<close> return their error (if any) together with the
  state they leave behind.
\<close>

record 'w env =
  checkDirEmpty :: "'w \<Rightarrow> string \<Rightarrow> string option"
  Twice :: "string \<Rightarrow> string"
  CreateConfFile :: "string \<Rightarrow> string \<Rightarrow> bool \<Rightarrow> int \<Rightarrow> string \<Rightarrow> 'w \<Rightarrow> string option \<times> 'w"
  WriteDirIV :: "string \<Rightarrow> 'w \<Rightarrow> string option \<times> 'w"
  ERREXIT_INIT :: int
  ProgramName :: string
  GitVersion :: string
  ColorGreen :: string
  ColorGrey :: string
  ColorReset :: string
  Getwd :: string
  filepath_Rel :: "string \<Rightarrow> string \<Rightarrow> string"

text \<open>\<^verbatim>\<open>strings.HasPrefix\<close>.\<close>

definition HasPrefix :: "string \<Rightarrow> string \<Rightarrow> bool" where
  "HasPrefix s p = (take (length p) s = p)"

text \<open>
  The tail of \<^verbatim>\<open>initDir\<close> after both files are written (lines 51 to 61): two log lines and
  \<^verbatim>\<open>os.Exit(0)\<close>.
\<close>

definition success_messages :: "'w env \<Rightarrow> argContainer \<Rightarrow> event list" where
  "success_messages E args =
     (let wd = Getwd E;
          friendlyPath0 = filepath_Rel E wd (cipherdir args);
          friendlyPath = (if HasPrefix friendlyPath0 ''../'' then cipherdir args else friendlyPath0)
      in [Info (ColorGreen E @ ''The filesystem has been created successfully.'' @ ColorReset E),
          Info (ColorGrey E @ ''You can now mount it using: '' @ ProgramName E @ '' '' @ friendlyPath
                @ '' MOUNTPOINT'' @ ColorReset E)])"

text \<open>
  \<^verbatim>\<open>initDir\<close> never returns: every path ends in \<^verbatim>\<open>os.Exit\<close>. The model returns the exit
  code, the state of the host at that moment and the events up to it.
\<close>

definition initDir :: "'w env \<Rightarrow> argContainer \<Rightarrow> 'w \<Rightarrow> int \<times> 'w \<times> event list" where
  "initDir E args w =
     (let t0 = (if \<not> reverse args then [Call_checkDirEmpty (cipherdir args)] else [])
      in case (if \<not> reverse args then checkDirEmpty E w (cipherdir args) else None) of
           Some err \<Rightarrow> (ERREXIT_INIT E, w, t0 @ [Fatal (''Invalid cipherdir: '' @ err)])
         | None \<Rightarrow>
             (let t1 = t0 @ [Info (if extpass args = ''''
                                   then ''Choose a password for protecting your files.''
                                   else ''Using password provided via -extpass.''),
                             Call_Twice (extpass args)];
                  password = Twice E (extpass args);
                  creator = ProgramName E @ '' '' @ GitVersion E;
                  t2 = t1 @ [Call_CreateConfFile (config args) password (plaintextnames args)
                               (scryptn args) creator]
              in case CreateConfFile E (config args) password (plaintextnames args)
                        (scryptn args) creator w of
                   (Some err, w1) \<Rightarrow> (ERREXIT_INIT E, w1, t2 @ [Fatal err])
                 | (None, w1) \<Rightarrow>
                     (if \<not> plaintextnames args \<and> \<not> reverse args
                      then (case WriteDirIV E (cipherdir args) w1 of
                              (Some err, w2) \<Rightarrow>
                                (ERREXIT_INIT E, w2,
                                 t2 @ [Call_WriteDirIV (cipherdir args), Fatal err])
                            | (None, w2) \<Rightarrow>
                                (0, w2, t2 @ [Call_WriteDirIV (cipherdir args)]
                                        @ success_messages E args))
                      else (0, w1, t2 @ success_messages E args))))"

text \<open>
  A host for concrete runs: its state is the list of paths that exist. A directory is empty
  when no path lies below it; creating a file adds its path.
\<close>

definition host_checkDirEmpty :: "string list \<Rightarrow> string \<Rightarrow> string option" where
  "host_checkDirEmpty w d =
     (if list_ex (\<lambda>p. HasPrefix p (d @ ''/'')) w then Some ''directory not empty'' else None)"

definition host_env :: "string list env" where
  "host_env = \<lparr> checkDirEmpty = host_checkDirEmpty,
                Twice = (\<lambda>_. ''secret''),
                CreateConfFile = (\<lambda>p _ _ _ _ w. (None, p # w)),
                WriteDirIV = (\<lambda>d w. (None, (d @ ''/gocryptfs.diriv'') # w)),
                ERREXIT_INIT = 7,
                ProgramName = ''gocryptfs'',
                GitVersion = ''v1.0'',
                ColorGreen = '''',
                ColorGrey = '''',
                ColorReset = '''',
                Getwd = ''/home/u'',
                filepath_Rel = (\<lambda>_ p. p) \<rparr>"

definition forward_args :: argContainer where
  "forward_args = \<lparr> cipherdir = ''/c'', config = ''/c/gocryptfs.conf'', extpass = '''',
                    plaintextnames = False, reverse = False, scryptn = 16 \<rparr>"

definition reverse_args :: argContainer where
  "reverse_args = \<lparr> cipherdir = ''/c'', config = ''/c/.gocryptfs.reverse.conf'', extpass = '''',
                    plaintextnames = False, reverse = True, scryptn = 16 \<rparr>"

definition plain_args :: argContainer where
  "plain_args = \<lparr> cipherdir = ''/c'', config = ''/c/gocryptfs.conf'', extpass = '''',
                  plaintextnames = True, reverse = False, scryptn = 16 \<rparr>"

text \<open>The two calls of \<^verbatim>\<open>initDir\<close> that write into the host's file system.\<close>

fun is_write :: "event \<Rightarrow> bool" where
  "is_write (Call_CreateConfFile _ _ _ _ _) = True"
| "is_write (Call_WriteDirIV _) = True"
| "is_write _ = False"

fun is_check :: "event \<Rightarrow> bool" where
  "is_check (Call_checkDirEmpty _) = True"
| "is_check _ = False"

fun is_password :: "event \<Rightarrow> bool" where
  "is_password (Call_Twice _) = True"
| "is_password _ = False"

section \<open>Properties of the init operation\<close>

lemma success_messages_no_check: "filter is_check (success_messages E args) = []"
  by (simp add: success_messages_def Let_def)

lemma initDir_reverse_indep:
  "reverse args \<Longrightarrow> initDir (E\<lparr>checkDirEmpty := f\<rparr>) args w = initDir E args w"
  by (simp add: initDir_def success_messages_def Let_def cong: option.case_cong prod.case_cong)

lemma initDir_reverse_trace:
  assumes "reverse args"
  shows "filter is_check (snd (snd (initDir E args w))) = []"
proof -
  obtain e1 w1 where c: "CreateConfFile E (config args) (Twice E (extpass args))
      (plaintextnames args) (scryptn args) (ProgramName E @ '' '' @ GitVersion E) w = (e1, w1)"
    by (cases "CreateConfFile E (config args) (Twice E (extpass args))
      (plaintextnames args) (scryptn args) (ProgramName E @ '' '' @ GitVersion E) w")
  show ?thesis
    unfolding initDir_def Let_def using assms c
    by (cases e1; simp add: success_messages_no_check)
qed

lemma initDir_forward_first:
  assumes "\<not> reverse args"
  shows "take 1 (snd (snd (initDir E args w))) = [Call_checkDirEmpty (cipherdir args)]"
proof -
  obtain e1 w1 where c: "CreateConfFile E (config args) (Twice E (extpass args))
      (plaintextnames args) (scryptn args) (ProgramName E @ '' '' @ GitVersion E) w = (e1, w1)"
    by (cases "CreateConfFile E (config args) (Twice E (extpass args))
      (plaintextnames args) (scryptn args) (ProgramName E @ '' '' @ GitVersion E) w")
  obtain e2 w2 where d: "WriteDirIV E (cipherdir args) w1 = (e2, w2)"
    by (cases "WriteDirIV E (cipherdir args) w1")
  show ?thesis
    unfolding initDir_def Let_def using assms c d
    by (cases "checkDirEmpty E w (cipherdir args)"; cases e1; cases e2; simp)
qed

lemma initDir_forward_nonempty:
  "\<not> reverse args \<Longrightarrow> checkDirEmpty E w (cipherdir args) = Some err \<Longrightarrow>
     initDir E args w =
       (ERREXIT_INIT E, w,
        [Call_checkDirEmpty (cipherdir args), Fatal (''Invalid cipherdir: '' @ err)])"
  by (simp add: initDir_def)

text \<open>
  C9, as the code has it. A run of \<^verbatim>\<open>initDir\<close> in which the directory check passes (or is
  skipped), \<^verbatim>\<open>CreateConfFile\<close> reports no error and \<^verbatim>\<open>WriteDirIV\<close>, where it is called,
  reports no error, exits with code 0. Its writes are: the config file at \<^verbatim>\<open>args.config\<close>
  and then, in forward mode with file name encryption, \<^verbatim>\<open>gocryptfs.diriv\<close> in the root of
  the cipher directory. With \<^verbatim>\<open>plaintextnames\<close> or with \<^verbatim>\<open>reverse\<close> the config file is
  the only write: \<^verbatim>\<open>WriteDirIV\<close> is not called.
\<close>

theorem initDir_success:
  assumes "reverse args \<or> checkDirEmpty E w (cipherdir args) = None"
    and "CreateConfFile E (config args) (Twice E (extpass args)) (plaintextnames args)
           (scryptn args) (ProgramName E @ '' '' @ GitVersion E) w = (None, w1)"
    and "\<not> plaintextnames args \<and> \<not> reverse args \<longrightarrow>
           WriteDirIV E (cipherdir args) w1 = (None, w2)"
  shows "fst (initDir E args w) = 0 \<and>
         (if \<not> plaintextnames args \<and> \<not> reverse args
          then fst (snd (initDir E args w)) = w2 \<and>
               filter is_write (snd (snd (initDir E args w))) =
                 [Call_CreateConfFile (config args) (Twice E (extpass args)) (plaintextnames args)
                    (scryptn args) (ProgramName E @ '' '' @ GitVersion E),
                  Call_WriteDirIV (cipherdir args)]
          else fst (snd (initDir E args w)) = w1 \<and>
               filter is_write (snd (snd (initDir E args w))) =
                 [Call_CreateConfFile (config args) (Twice E (extpass args)) (plaintextnames args)
                    (scryptn args) (ProgramName E @ '' '' @ GitVersion E)])"
  using assms unfolding initDir_def Let_def
  by (cases "reverse args"; cases "plaintextnames args"; simp add: success_messages_def Let_def)

theorem initDir_success_witness:
  "fst (initDir host_env forward_args []) = 0 \<and>
   fst (snd (initDir host_env forward_args [])) = [''/c/gocryptfs.diriv'', ''/c/gocryptfs.conf''] \<and>
   filter is_write (snd (snd (initDir host_env forward_args []))) =
     [Call_CreateConfFile ''/c/gocryptfs.conf'' ''secret'' False 16 ''gocryptfs v1.0'',
      Call_WriteDirIV ''/c''] \<and>
   fst (initDir host_env plain_args []) = 0 \<and>
   fst (snd (initDir host_env plain_args [])) = [''/c/gocryptfs.conf''] \<and>
   filter is_write (snd (snd (initDir host_env plain_args []))) =
     [Call_CreateConfFile ''/c/gocryptfs.conf'' ''secret'' True 16 ''gocryptfs v1.0'']"
  using initDir_success [of forward_args host_env "[]" "[''/c/gocryptfs.conf'']"
                            "[''/c/gocryptfs.diriv'', ''/c/gocryptfs.conf'']"]
        initDir_success [of plain_args host_env "[]" "[''/c/gocryptfs.conf'']" "[]"]
  by (simp add: host_env_def forward_args_def plain_args_def host_checkDirEmpty_def)

text \<open>
  C9, as the spec states it, fails in reverse mode: with file name encryption on and
  \<^verbatim>\<open>reverse\<close> set, the run exits with code 0 and has written the config file only.
\<close>

theorem initDir_reverse_no_diriv:
  "fst (initDir host_env reverse_args []) = 0 \<and> \<not> plaintextnames reverse_args \<and>
   filter is_write (snd (snd (initDir host_env reverse_args []))) =
     [Call_CreateConfFile ''/c/.gocryptfs.reverse.conf'' ''secret'' False 16 ''gocryptfs v1.0''] \<and>
   fst (snd (initDir host_env reverse_args [])) = [''/c/.gocryptfs.reverse.conf'']"
  by (simp add: initDir_def host_env_def reverse_args_def success_messages_def Let_def)

text \<open>
  C10. In forward mode the first thing \<^verbatim>\<open>initDir\<close> does is call \<^verbatim>\<open>checkDirEmpty\<close> on the
  cipher directory. When that reports an error, the run exits with \<^verbatim>\<open>ERREXIT_INIT\<close>, the
  host's state is the one it started in, and the only events are the check and the fatal
  log line: no password was read and nothing was written. In reverse mode the check is not
  called, and the run does not depend on what the check would have said.
\<close>

theorem initDir_emptiness_check:
  "(\<not> reverse args \<longrightarrow>
      take 1 (snd (snd (initDir E args w))) = [Call_checkDirEmpty (cipherdir args)] \<and>
      (\<forall>err. checkDirEmpty E w (cipherdir args) = Some err \<longrightarrow>
         initDir E args w =
           (ERREXIT_INIT E, w,
            [Call_checkDirEmpty (cipherdir args), Fatal (''Invalid cipherdir: '' @ err)]))) \<and>
   (reverse args \<longrightarrow>
      filter is_check (snd (snd (initDir E args w))) = [] \<and>
      (\<forall>f. initDir (E\<lparr>checkDirEmpty := f\<rparr>) args w = initDir E args w))"
proof (intro conjI impI allI)
  assume "\<not> reverse args"
  then show "take 1 (snd (snd (initDir E args w))) = [Call_checkDirEmpty (cipherdir args)]"
    by (rule initDir_forward_first)
next
  fix err
  assume "\<not> reverse args" and "checkDirEmpty E w (cipherdir args) = Some err"
  then show "initDir E args w =
      (ERREXIT_INIT E, w,
       [Call_checkDirEmpty (cipherdir args), Fatal (''Invalid cipherdir: '' @ err)])"
    by (rule initDir_forward_nonempty)
next
  assume "reverse args"
  then show "filter is_check (snd (snd (initDir E args w))) = []"
    by (rule initDir_reverse_trace)
next
  fix f
  assume "reverse args"
  then show "initDir (E\<lparr>checkDirEmpty := f\<rparr>) args w = initDir E args w"
    by (rule initDir_reverse_indep)
qed

theorem initDir_emptiness_check_witness:
  "\<not> reverse forward_args \<and>
   checkDirEmpty host_env [''/c/old.txt''] (cipherdir forward_args) = Some ''directory not empty'' \<and>
   initDir host_env forward_args [''/c/old.txt''] =
     (7, [''/c/old.txt''],
      [Call_checkDirEmpty ''/c'', Fatal ''Invalid cipherdir: directory not empty'']) \<and>
   filter is_password (snd (snd (initDir host_env forward_args [''/c/old.txt'']))) = [] \<and>
   filter is_write (snd (snd (initDir host_env forward_args [''/c/old.txt'']))) = [] \<and>
   reverse reverse_args \<and>
   filter is_check (snd (snd (initDir host_env reverse_args [''/c/old.txt'']))) = [] \<and>
   initDir (host_env\<lparr>checkDirEmpty := (\<lambda>_ _. Some ''never asked'')\<rparr>) reverse_args [''/c/old.txt'']
     = initDir host_env reverse_args [''/c/old.txt'']"
proof -
  have fwd: "\<not> reverse forward_args"
    by (simp add: forward_args_def)
  have chk: "checkDirEmpty host_env [''/c/old.txt''] (cipherdir forward_args)
               = Some ''directory not empty''"
    by (simp add: host_env_def forward_args_def host_checkDirEmpty_def HasPrefix_def)
  have rev: "reverse reverse_args"
    by (simp add: reverse_args_def)
  note fwd_part = initDir_emptiness_check [of forward_args host_env "[''/c/old.txt'']",
      THEN conjunct1, rule_format, OF fwd]
  note rev_part = initDir_emptiness_check [of reverse_args host_env "[''/c/old.txt'']",
      THEN conjunct2, rule_format, OF rev]
  have run: "initDir host_env forward_args [''/c/old.txt''] =
               (ERREXIT_INIT host_env, [''/c/old.txt''],
                [Call_checkDirEmpty (cipherdir forward_args),
                 Fatal (''Invalid cipherdir: '' @ ''directory not empty'')])"
    by (rule fwd_part [THEN conjunct2, rule_format, OF chk])
  have skip: "filter is_check (snd (snd (initDir host_env reverse_args [''/c/old.txt'']))) = []"
    by (rule rev_part [THEN conjunct1])
  have indep: "initDir (host_env\<lparr>checkDirEmpty := (\<lambda>_ _. Some ''never asked'')\<rparr>) reverse_args
                  [''/c/old.txt''] = initDir host_env reverse_args [''/c/old.txt'']"
    by (rule rev_part [THEN conjunct2, rule_format])
  from run have run': "initDir host_env forward_args [''/c/old.txt''] =
     (7, [''/c/old.txt''],
      [Call_checkDirEmpty ''/c'', Fatal ''Invalid cipherdir: directory not empty''])"
    by (simp add: host_env_def forward_args_def)
  show ?thesis
    using fwd chk rev skip indep by (simp add: run')
qed

end
